theory Spec2Isabelle
  imports Complex_Main
begin

section \<open>Mergington High School activities API (src/app.py)\<close>

text \<open>
  The application keeps three module-level dictionaries: the teacher credentials read
  from \<^verbatim>\<open>teachers.json\<close> at import time, the session table and the activity
  registry. Every handler is modelled as a function from the state before the request to
  a result and the state after it; an \<^verbatim>\<open>HTTPException\<close> is the left summand
  of the result.
\<close>

subsection \<open>Data\<close>

text \<open>
  What can stop the import of the module: the two \<^verbatim>\<open>RuntimeError\<close>s that
  \<^verbatim>\<open>load_teachers\<close> raises itself, an exception of \<^verbatim>\<open>open\<close> or
  \<^verbatim>\<open>json.load\<close> (\<^verbatim>\<open>OSError\<close>, \<^verbatim>\<open>UnicodeDecodeError\<close>,
  \<^verbatim>\<open>JSONDecodeError\<close>), and the \<^verbatim>\<open>AttributeError\<close> or
  \<^verbatim>\<open>TypeError\<close> of an operation applied to a decoded value of the wrong type.
\<close>

datatype startup_error = RuntimeError string | ReadError | AttributeError | TypeError

datatype http_exception = HTTPException (status_code: nat) (detail: string)

text \<open>
  The loader does not validate what \<^verbatim>\<open>json.load\<close> returns, so the decoded file
  is modelled in full: \<^verbatim>\<open>None\<close>, \<^verbatim>\<open>bool\<close>, \<^verbatim>\<open>int\<close>,
  \<^verbatim>\<open>float\<close> (a finite value, or one of the three constants \<^verbatim>\<open>Infinity\<close>,
  \<^verbatim>\<open>-Infinity\<close>, \<^verbatim>\<open>NaN\<close> that the decoder accepts), \<^verbatim>\<open>str\<close>,
  \<^verbatim>\<open>list\<close> and \<^verbatim>\<open>dict\<close>. The members of an object are listed in the order
  of the file; a name that occurs twice keeps the position of its first occurrence and the
  value of its last, as in the \<^verbatim>\<open>dict\<close> the decoder builds.
\<close>

datatype pyfloat = Finite rat | PosInf | NegInf | NaN

datatype json =
    JNull
  | JBool bool
  | JInt int
  | JFloat pyfloat
  | JStr string
  | JArr "json list"
  | JObj "(string \<times> json) list"

text \<open>
  \<^verbatim>\<open>teachers.json\<close> as the loader finds it: absent, present but not readable as
  JSON, or decoded to a value.
\<close>

datatype teachers_file = Missing | Unreadable | Decoded json

record activity =
  description :: string
  schedule :: string
  max_participants :: int
  participants :: "string list"

record login_request =
  username :: string
  password :: string

record request =
  cookies :: "string \<rightharpoonup> string"

datatype cookie_directive =
    Set_Cookie string string bool string nat
  | Delete_Cookie string

record json_response =
  content :: "(string \<times> string) list"
  cookie_directives :: "cookie_directive list"

text \<open>
  \<open>teacher_credentials\<close> is built once by a loop of item assignments and then tested
  for emptiness, so it is kept as an insertion-ordered list of key/value pairs, as a
  Python \<^verbatim>\<open>dict\<close> is; keys and values are whatever decoded values the loop stored.
  The two tables that requests read and write by string keys are maps.
\<close>

record app_state =
  teacher_credentials :: "(json \<times> json) list"
  teacher_sessions :: "string \<rightharpoonup> string"
  activities :: "string \<rightharpoonup> activity"

subsection \<open>Python truthiness\<close>

text \<open>Of a \<^verbatim>\<open>str | None\<close>: a cookie value, or a username of the session table.\<close>

fun truthy :: "string option \<Rightarrow> bool" where
  "truthy None = False"
| "truthy (Some s) = (s \<noteq> [])"

text \<open>Of a decoded JSON value.\<close>

fun truthy_json :: "json \<Rightarrow> bool" where
  "truthy_json JNull = False"
| "truthy_json (JBool b) = b"
| "truthy_json (JInt i) = (i \<noteq> 0)"
| "truthy_json (JFloat (Finite q)) = (q \<noteq> 0)"
| "truthy_json (JFloat PosInf) = True"
| "truthy_json (JFloat NegInf) = True"
| "truthy_json (JFloat NaN) = True"
| "truthy_json (JStr s) = (s \<noteq> [])"
| "truthy_json (JArr xs) = (xs \<noteq> [])"
| "truthy_json (JObj members) = (members \<noteq> [])"

text \<open>Of the result of a \<^verbatim>\<open>dict.get\<close> on the credentials (\<open>None\<close>: no such key).\<close>

fun truthy_value :: "json option \<Rightarrow> bool" where
  "truthy_value None = False"
| "truthy_value (Some v) = truthy_json v"

subsection \<open>Dictionaries with decoded values as keys\<close>

text \<open>
  Two keys of a \<^verbatim>\<open>dict\<close> are the same key when they are equal (and hash alike):
  \<^verbatim>\<open>True\<close>, \<^verbatim>\<open>1\<close> and \<^verbatim>\<open>1.0\<close> are one key, a string is only equal
  to the same string, and every \<^verbatim>\<open>NaN\<close> of a decoded file is the one object
  \<^verbatim>\<open>json.decoder.NaN\<close>, found again by identity. Lists and dicts are unhashable:
  they have no key.
\<close>

datatype dict_key = KNone | KNum rat | KPosInf | KNegInf | KNaN | KStr string

fun key_of :: "json \<Rightarrow> dict_key option" where
  "key_of JNull = Some KNone"
| "key_of (JBool b) = Some (KNum (if b then 1 else 0))"
| "key_of (JInt i) = Some (KNum (of_int i))"
| "key_of (JFloat (Finite q)) = Some (KNum q)"
| "key_of (JFloat PosInf) = Some KPosInf"
| "key_of (JFloat NegInf) = Some KNegInf"
| "key_of (JFloat NaN) = Some KNaN"
| "key_of (JStr s) = Some (KStr s)"
| "key_of (JArr xs) = None"
| "key_of (JObj members) = None"

definition hashable :: "json \<Rightarrow> bool" where
  "hashable v = (key_of v \<noteq> None)"

definition key_eq :: "json \<Rightarrow> json \<Rightarrow> bool" where
  "key_eq a b = (key_of a \<noteq> None \<and> key_of a = key_of b)"

text \<open>
  \<^verbatim>\<open>d[k] = v\<close> for a hashable \<open>k\<close>: a key that is already there keeps its place
  (and the key object first inserted) and gets the new value; a new key goes to the end.
\<close>

fun dict_set :: "json \<Rightarrow> json \<Rightarrow> (json \<times> json) list \<Rightarrow> (json \<times> json) list" where
  "dict_set k v [] = [(k, v)]"
| "dict_set k v ((k', v') # rest) =
     (if key_eq k k' then (k', v) # rest else (k', v') # dict_set k v rest)"

text \<open>\<^verbatim>\<open>d.get(k)\<close>, with \<open>None\<close> for a key that is not there.\<close>

fun dict_get :: "(json \<times> json) list \<Rightarrow> json \<Rightarrow> json option" where
  "dict_get [] k = None"
| "dict_get ((k', v') # rest) k = (if key_eq k' k then Some v' else dict_get rest k)"

text \<open>
  \<^verbatim>\<open>obj.get(name, default)\<close> on a decoded object, and the keys of the object in
  the order a \<^verbatim>\<open>for\<close> loop visits them.
\<close>

definition obj_get :: "(string \<times> json) list \<Rightarrow> string \<Rightarrow> json \<Rightarrow> json" where
  "obj_get members name dflt =
     (case map_of (rev members) name of None \<Rightarrow> dflt | Some v \<Rightarrow> v)"

definition obj_keys :: "(string \<times> json) list \<Rightarrow> string list" where
  "obj_keys members = rev (remdups (rev (map fst members)))"

text \<open>
  What \<^verbatim>\<open>for teacher in teachers\<close> visits: the elements of a list, the
  one-character strings of a string, the keys of a dict; \<^verbatim>\<open>None\<close>, a boolean and
  a number are not iterable.
\<close>

fun iterate :: "json \<Rightarrow> startup_error + json list" where
  "iterate (JArr xs) = Inr xs"
| "iterate (JStr s) = Inr (map (\<lambda>c. JStr [c]) s)"
| "iterate (JObj members) = Inr (map JStr (obj_keys members))"
| "iterate JNull = Inl TypeError"
| "iterate (JBool b) = Inl TypeError"
| "iterate (JInt i) = Inl TypeError"
| "iterate (JFloat x) = Inl TypeError"

subsection \<open>Credential loading\<close>

text \<open>
  The \<^verbatim>\<open>for teacher in teachers\<close> loop, with the dictionary as accumulator. Only a
  dict has \<^verbatim>\<open>.get\<close>: on any other element the loop raises
  \<^verbatim>\<open>AttributeError\<close>. A missing member reads as \<^verbatim>\<open>None\<close>. The item
  assignment raises \<^verbatim>\<open>TypeError\<close> when the username is a list or a dict.
\<close>

fun load_loop ::
  "json list \<Rightarrow> (json \<times> json) list \<Rightarrow> startup_error + (json \<times> json) list" where
  "load_loop [] creds = Inr creds"
| "load_loop (teacher # rest) creds =
     (case teacher of
        JObj members \<Rightarrow>
          (let username = obj_get members ''username'' JNull;
               password = obj_get members ''password'' JNull
           in if truthy_json username \<and> truthy_json password
              then (if hashable username
                    then load_loop rest (dict_set username password creds)
                    else Inl TypeError)
              else load_loop rest creds)
      | _ \<Rightarrow> Inl AttributeError)"

text \<open>
  \<^verbatim>\<open>data.get("teachers", [])\<close> needs \<open>data\<close> to be a dict; the default is used
  only when the member is absent, a \<^verbatim>\<open>null\<close> member is returned as it is.
\<close>

definition load_teachers :: "teachers_file \<Rightarrow> startup_error + (json \<times> json) list" where
  "load_teachers cfg =
     (case cfg of
        Missing \<Rightarrow> Inl (RuntimeError ''teachers.json not found in src directory'')
      | Unreadable \<Rightarrow> Inl ReadError
      | Decoded data \<Rightarrow>
          (case data of
             JObj members \<Rightarrow>
               (case iterate (obj_get members ''teachers'' (JArr [])) of
                  Inl err \<Rightarrow> Inl err
                | Inr teachers \<Rightarrow>
                    (case load_loop teachers [] of
                       Inl err \<Rightarrow> Inl err
                     | Inr creds \<Rightarrow>
                         if creds = []
                         then Inl (RuntimeError
                                ''No valid teacher credentials found in teachers.json'')
                         else Inr creds))
           | _ \<Rightarrow> Inl AttributeError))"

subsection \<open>The seed registry and the state at start-up\<close>

definition seed_activities :: "(string \<times> activity) list" where
  "seed_activities =
    [(''Chess Club'',
      \<lparr>description = ''Learn strategies and compete in chess tournaments'',
       schedule = ''Fridays, 3:30 PM - 5:00 PM'',
       max_participants = 12,
       participants = [''michael@mergington.edu'', ''daniel@mergington.edu'']\<rparr>),
     (''Programming Class'',
      \<lparr>description = ''Learn programming fundamentals and build software projects'',
       schedule = ''Tuesdays and Thursdays, 3:30 PM - 4:30 PM'',
       max_participants = 20,
       participants = [''emma@mergington.edu'', ''sophia@mergington.edu'']\<rparr>),
     (''Gym Class'',
      \<lparr>description = ''Physical education and sports activities'',
       schedule = ''Mondays, Wednesdays, Fridays, 2:00 PM - 3:00 PM'',
       max_participants = 30,
       participants = [''john@mergington.edu'', ''olivia@mergington.edu'']\<rparr>),
     (''Soccer Team'',
      \<lparr>description = ''Join the school soccer team and compete in matches'',
       schedule = ''Tuesdays and Thursdays, 4:00 PM - 5:30 PM'',
       max_participants = 22,
       participants = [''liam@mergington.edu'', ''noah@mergington.edu'']\<rparr>),
     (''Basketball Team'',
      \<lparr>description = ''Practice and play basketball with the school team'',
       schedule = ''Wednesdays and Fridays, 3:30 PM - 5:00 PM'',
       max_participants = 15,
       participants = [''ava@mergington.edu'', ''mia@mergington.edu'']\<rparr>),
     (''Art Club'',
      \<lparr>description = ''Explore your creativity through painting and drawing'',
       schedule = ''Thursdays, 3:30 PM - 5:00 PM'',
       max_participants = 15,
       participants = [''amelia@mergington.edu'', ''harper@mergington.edu'']\<rparr>),
     (''Drama Club'',
      \<lparr>description = ''Act, direct, and produce plays and performances'',
       schedule = ''Mondays and Wednesdays, 4:00 PM - 5:30 PM'',
       max_participants = 20,
       participants = [''ella@mergington.edu'', ''scarlett@mergington.edu'']\<rparr>),
     (''Math Club'',
      \<lparr>description = ''Solve challenging problems and participate in math competitions'',
       schedule = ''Tuesdays, 3:30 PM - 4:30 PM'',
       max_participants = 10,
       participants = [''james@mergington.edu'', ''benjamin@mergington.edu'']\<rparr>),
     (''Debate Team'',
      \<lparr>description = ''Develop public speaking and argumentation skills'',
       schedule = ''Fridays, 4:00 PM - 5:30 PM'',
       max_participants = 12,
       participants = [''charlotte@mergington.edu'', ''henry@mergington.edu'']\<rparr>)]"

text \<open>
  The module's top level: \<^verbatim>\<open>teacher_credentials = load_teachers()\<close>,
  \<^verbatim>\<open>teacher_sessions = {}\<close> and the \<^verbatim>\<open>activities\<close> literal. A failed load
  aborts the import, so there is no state.
\<close>

definition startup :: "teachers_file \<Rightarrow> startup_error + app_state" where
  "startup cfg =
     (case load_teachers cfg of
        Inl err \<Rightarrow> Inl err
      | Inr creds \<Rightarrow>
          Inr \<lparr>teacher_credentials = creds,
               teacher_sessions = Map.empty,
               activities = map_of seed_activities\<rparr>)"

subsection \<open>Authentication helpers\<close>

definition get_current_teacher :: "app_state \<Rightarrow> request \<Rightarrow> string option" where
  "get_current_teacher s req =
     (let session_token = cookies req ''teacher_session''
      in if \<not> truthy session_token then None
         else teacher_sessions s (the session_token))"

definition unauthenticated :: http_exception where
  "unauthenticated =
     HTTPException 401 ''Only logged-in teachers can register or unregister students''"

definition require_teacher :: "app_state \<Rightarrow> request \<Rightarrow> http_exception + string" where
  "require_teacher s req =
     (let teacher_username = get_current_teacher s req
      in if \<not> truthy teacher_username then Inl unauthenticated
         else Inr (the teacher_username))"

subsection \<open>Login and logout\<close>

text \<open>
  \<open>session_token\<close> is the string that \<^verbatim>\<open>secrets.token_urlsafe(32)\<close> returned
  for this request: the random draw is an input of the handler.
\<close>

definition login_teacher ::
  "app_state \<Rightarrow> login_request \<Rightarrow> string \<Rightarrow> (http_exception + json_response) \<times> app_state" where
  "login_teacher s credentials session_token =
     (let expected_password = dict_get (teacher_credentials s) (JStr (username credentials))
      in if \<not> truthy_value expected_password \<or>
            expected_password \<noteq> Some (JStr (password credentials))
         then (Inl (HTTPException 401 ''Invalid username or password''), s)
         else
           (Inr \<lparr>content = [(''message'', ''Logged in as '' @ username credentials),
                             (''username'', username credentials)],
                  cookie_directives =
                    [Set_Cookie ''teacher_session'' session_token True ''lax'' (8 * 60 * 60)]\<rparr>,
            s\<lparr>teacher_sessions := (teacher_sessions s)(session_token \<mapsto> username credentials)\<rparr>))"

definition logout_teacher :: "app_state \<Rightarrow> request \<Rightarrow> json_response \<times> app_state" where
  "logout_teacher s req =
     (let session_token = cookies req ''teacher_session'';
          s' = (if truthy session_token
                then s\<lparr>teacher_sessions := (teacher_sessions s)(the session_token := None)\<rparr>
                else s)
      in (\<lparr>content = [(''message'', ''Logged out'')],
           cookie_directives = [Delete_Cookie ''teacher_session'']\<rparr>, s'))"

subsection \<open>Roster mutations\<close>

definition signup_for_activity ::
  "app_state \<Rightarrow> string \<Rightarrow> string \<Rightarrow> request \<Rightarrow>
     (http_exception + (string \<times> string) list) \<times> app_state" where
  "signup_for_activity s activity_name email req =
     (case require_teacher s req of
        Inl exn \<Rightarrow> (Inl exn, s)
      | Inr _ \<Rightarrow>
          (case activities s activity_name of
             None \<Rightarrow> (Inl (HTTPException 404 ''Activity not found''), s)
           | Some activity \<Rightarrow>
               if email \<in> set (participants activity)
               then (Inl (HTTPException 400 ''Student is already signed up''), s)
               else
                 (Inr [(''message'', ''Signed up '' @ email @ '' for '' @ activity_name)],
                  s\<lparr>activities := (activities s)(activity_name \<mapsto>
                       activity\<lparr>participants := participants activity @ [email]\<rparr>)\<rparr>)))"

definition unregister_from_activity ::
  "app_state \<Rightarrow> string \<Rightarrow> string \<Rightarrow> request \<Rightarrow>
     (http_exception + (string \<times> string) list) \<times> app_state" where
  "unregister_from_activity s activity_name email req =
     (case require_teacher s req of
        Inl exn \<Rightarrow> (Inl exn, s)
      | Inr _ \<Rightarrow>
          (case activities s activity_name of
             None \<Rightarrow> (Inl (HTTPException 404 ''Activity not found''), s)
           | Some activity \<Rightarrow>
               if email \<notin> set (participants activity)
               then (Inl (HTTPException 400 ''Student is not signed up for this activity''), s)
               else
                 (Inr [(''message'', ''Unregistered '' @ email @ '' from '' @ activity_name)],
                  s\<lparr>activities := (activities s)(activity_name \<mapsto>
                       activity\<lparr>participants := remove1 email (participants activity)\<rparr>)\<rparr>)))"

subsection \<open>Serving a sequence of requests\<close>

text \<open>
  The handlers share the three dictionaries, and each request runs to completion on the
  state its predecessor left. A run of the server is the start-up state folded over the
  list of requests it received.
\<close>

datatype api_call =
    Login login_request string
  | Logout request
  | Signup string string request
  | Unregister string string request

fun handle :: "app_state \<Rightarrow> api_call \<Rightarrow> app_state" where
  "handle s (Login credentials session_token) = snd (login_teacher s credentials session_token)"
| "handle s (Logout req) = snd (logout_teacher s req)"
| "handle s (Signup activity_name email req) = snd (signup_for_activity s activity_name email req)"
| "handle s (Unregister activity_name email req) =
     snd (unregister_from_activity s activity_name email req)"

definition serve :: "app_state \<Rightarrow> api_call list \<Rightarrow> app_state" where
  "serve s calls = foldl handle s calls"

subsection \<open>Vocabulary of the properties\<close>

text \<open>
  The entries that a decoded file lists are what the loop visits: none when the decoded
  value is not an object or its \<^verbatim>\<open>"teachers"\<close> member is not iterable
  (\<open>listing\<close> is \<open>None\<close> then), the empty list when the member is absent.
\<close>

definition listing :: "json \<Rightarrow> json list option" where
  "listing data =
     (case data of
        JObj members \<Rightarrow>
          (case iterate (obj_get members ''teachers'' (JArr [])) of
             Inl err \<Rightarrow> None
           | Inr teachers \<Rightarrow> Some teachers)
      | _ \<Rightarrow> None)"

definition listed_entries :: "json \<Rightarrow> json list" where
  "listed_entries data = (case listing data of None \<Rightarrow> [] | Some teachers \<Rightarrow> teachers)"

text \<open>
  The username and the password of an entry (\<^verbatim>\<open>null\<close> when the member is
  missing or the entry is not an object). An entry is valid when it is an object whose
  username and password are both truthy, which for strings means non-empty;
  \<open>entry_credential\<close> reads the pair off a valid entry.
\<close>

definition is_object :: "json \<Rightarrow> bool" where
  "is_object t = (case t of JObj members \<Rightarrow> True | _ \<Rightarrow> False)"

definition username_of :: "json \<Rightarrow> json" where
  "username_of t =
     (case t of JObj members \<Rightarrow> obj_get members ''username'' JNull | _ \<Rightarrow> JNull)"

definition password_of :: "json \<Rightarrow> json" where
  "password_of t =
     (case t of JObj members \<Rightarrow> obj_get members ''password'' JNull | _ \<Rightarrow> JNull)"

definition valid_entry :: "json \<Rightarrow> bool" where
  "valid_entry t = (is_object t \<and> truthy_json (username_of t) \<and> truthy_json (password_of t))"

definition entry_credential :: "json \<Rightarrow> json \<times> json" where
  "entry_credential t = (username_of t, password_of t)"

text \<open>
  An entry is well typed when it is an object and, if it is valid, its username can be a
  dictionary key (it is not an array or an object). A decoded file is well typed when it
  is an object, its \<^verbatim>\<open>"teachers"\<close> member is absent or iterable, and every entry
  it lists is well typed.
\<close>

definition entry_well_typed :: "json \<Rightarrow> bool" where
  "entry_well_typed t = (is_object t \<and> (if valid_entry t then hashable (username_of t) else True))"

definition well_typed :: "json \<Rightarrow> bool" where
  "well_typed data = (listing data \<noteq> None \<and> list_all entry_well_typed (listed_entries data))"

text \<open>Every roster is free of repetitions.\<close>

definition rosters_distinct :: "app_state \<Rightarrow> bool" where
  "rosters_distinct s = (\<forall>name a. activities s name = Some a \<longrightarrow> distinct (participants a))"

text \<open>
  \<^verbatim>\<open>secrets.token_urlsafe(32)\<close> encodes 32 random bytes in 43 characters, so a token
  that a login issues is never the empty string.
\<close>

fun token_issued_ok :: "api_call \<Rightarrow> bool" where
  "token_issued_ok (Login credentials session_token) = (session_token \<noteq> [])"
| "token_issued_ok _ = True"

subsection \<open>Concrete files, states and requests\<close>

definition entry :: "string \<Rightarrow> string \<Rightarrow> json" where
  "entry u p = JObj [(''username'', JStr u), (''password'', JStr p)]"

definition duplicate_data :: json where
  "duplicate_data = JObj [(''teachers'', JArr [entry ''ms.lee'' ''old'', entry ''ms.lee'' ''new''])]"

definition duplicate_file :: teachers_file where
  "duplicate_file = Decoded duplicate_data"

text \<open>A valid entry followed by an element that is not an object.\<close>

definition stray_data :: json where
  "stray_data = JObj [(''teachers'', JArr [entry ''mr.smith'' ''secret'', JStr ''abc''])]"

definition stray_file :: teachers_file where
  "stray_file = Decoded stray_data"

definition mixed_data :: json where
  "mixed_data = JObj [(''teachers'', JArr
     [entry ''mr.smith'' ''secret'', JObj [(''username'', JStr ''nobody'')],
      entry ''ms.lee'' '''', JObj [(''username'', JNull), (''password'', JInt 0)],
      entry ''ms.lee'' ''old'', entry ''ms.lee'' ''new''])]"

definition mixed_file :: teachers_file where
  "mixed_file = Decoded mixed_data"

text \<open>Entries that are objects but not valid, and nothing else.\<close>

definition blank_data :: json where
  "blank_data = JObj [(''teachers'', JArr [entry ''ms.lee'' '''', JObj []])]"

text \<open>A \<^verbatim>\<open>"teachers"\<close> member that is \<^verbatim>\<open>null\<close>.\<close>

definition null_data :: json where
  "null_data = JObj [(''teachers'', JNull)]"

definition started :: app_state where
  "started =
     \<lparr>teacher_credentials = [(JStr ''mr.smith'', JStr ''secret''), (JStr ''ms.lee'', JStr ''new'')],
      teacher_sessions = Map.empty,
      activities = map_of seed_activities\<rparr>"

definition demo_state :: app_state where
  "demo_state =
     \<lparr>teacher_credentials = [(JStr ''mr.smith'', JStr ''secret'')],
      teacher_sessions = [''tok-1'' \<mapsto> ''mr.smith''],
      activities = map_of seed_activities\<rparr>"

definition chess_club :: activity where
  "chess_club =
     \<lparr>description = ''Learn strategies and compete in chess tournaments'',
      schedule = ''Fridays, 3:30 PM - 5:00 PM'',
      max_participants = 12,
      participants = [''michael@mergington.edu'', ''daniel@mergington.edu'']\<rparr>"

definition demo_after_signup :: app_state where
  "demo_after_signup =
     demo_state\<lparr>activities := (activities demo_state)(''Chess Club'' \<mapsto>
       chess_club\<lparr>participants := [''michael@mergington.edu'', ''daniel@mergington.edu'',
                                     ''new@mergington.edu'']\<rparr>)\<rparr>"

definition demo_after_unregister :: app_state where
  "demo_after_unregister =
     demo_state\<lparr>activities := (activities demo_state)(''Chess Club'' \<mapsto>
       chess_club\<lparr>participants := [''daniel@mergington.edu'']\<rparr>)\<rparr>"

text \<open>An activity that is already at its advertised capacity.\<close>

definition duo :: activity where
  "duo =
     \<lparr>description = ''Two seats'', schedule = ''Mondays'', max_participants = 2,
      participants = [''a@mergington.edu'', ''b@mergington.edu'']\<rparr>"

definition full_state :: app_state where
  "full_state =
     \<lparr>teacher_credentials = [(JStr ''mr.smith'', JStr ''secret'')],
      teacher_sessions = [''tok-1'' \<mapsto> ''mr.smith''],
      activities = [''Duo'' \<mapsto> duo]\<rparr>"

definition with_cookie :: "string \<Rightarrow> request" where
  "with_cookie t = \<lparr>cookies = [''teacher_session'' \<mapsto> t]\<rparr>"

definition no_cookie :: request where
  "no_cookie = \<lparr>cookies = Map.empty\<rparr>"

definition demo_calls :: "api_call list" where
  "demo_calls =
     [Login \<lparr>username = ''mr.smith'', password = ''secret''\<rparr> ''tok-1'',
      Signup ''Chess Club'' ''new@mergington.edu'' (with_cookie ''tok-1'')]"

section \<open>Properties\<close>

subsection \<open>Dictionaries\<close>

lemma key_eq_JStr [simp]: "key_eq (JStr a) (JStr b) \<longleftrightarrow> a = b"
  by (simp add: key_eq_def)

lemma key_eq_JStr_right: "key_eq k (JStr u) \<Longrightarrow> k = JStr u"
  by (cases k rule: key_of.cases) (simp_all add: key_eq_def)

lemma dict_set_not_Nil: "dict_set k v d \<noteq> []"
  by (cases d) (auto split: if_splits)

lemma dict_get_dict_set:
  "dict_get (dict_set k v d) k0 = (if key_eq k k0 then Some v else dict_get d k0)"
proof (induction d)
  case Nil
  then show ?case by simp
next
  case (Cons kv d)
  obtain k' v' where kv: "kv = (k', v')" by (cases kv)
  show ?case
  proof (cases "key_eq k k'")
    case True
    then have "key_eq k' k0 \<longleftrightarrow> key_eq k k0"
      by (auto simp: key_eq_def)
    with True kv show ?thesis by simp
  next
    case False
    then have "\<not> (key_eq k' k0 \<and> key_eq k k0)"
      by (auto simp: key_eq_def)
    with False kv Cons.IH show ?thesis by auto
  qed
qed

lemma dict_get_append:
  "dict_get (xs @ ys) k = (case dict_get xs k of None \<Rightarrow> dict_get ys k | Some v \<Rightarrow> Some v)"
  by (induction xs) auto

lemma dict_get_SomeD: "dict_get d k = Some v \<Longrightarrow> \<exists>k'. (k', v) \<in> set d \<and> key_eq k' k"
  by (induction d) (auto split: if_splits)

subsection \<open>The authentication gate\<close>

lemma get_current_teacher_None:
  "(case cookies req ''teacher_session'' of None \<Rightarrow> True | Some t \<Rightarrow> teacher_sessions s t = None)
   \<Longrightarrow> get_current_teacher s req = None"
  by (simp add: get_current_teacher_def Let_def split: option.splits)

lemma require_teacher_unauth:
  "get_current_teacher s req = None \<Longrightarrow> require_teacher s req = Inl unauthenticated"
  by (simp add: require_teacher_def)

lemma demo_auth: "require_teacher demo_state (with_cookie ''tok-1'') = Inr ''mr.smith''"
  by (simp add: require_teacher_def get_current_teacher_def demo_state_def with_cookie_def)

lemma demo_after_signup_auth:
  "require_teacher demo_after_signup (with_cookie ''tok-1'') = Inr ''mr.smith''"
  by (simp add: require_teacher_def get_current_teacher_def demo_after_signup_def
      demo_state_def with_cookie_def)

lemma full_auth: "require_teacher full_state (with_cookie ''tok-1'') = Inr ''mr.smith''"
  by (simp add: require_teacher_def get_current_teacher_def full_state_def with_cookie_def)

lemma demo_current: "get_current_teacher demo_state (with_cookie ''tok-1'') = Some ''mr.smith''"
  by (simp add: get_current_teacher_def demo_state_def with_cookie_def)

lemma demo_current_none: "get_current_teacher demo_state no_cookie = None"
  by (simp add: get_current_teacher_def no_cookie_def)

lemma demo_chess: "activities demo_state ''Chess Club'' = Some chess_club"
  by (simp add: demo_state_def seed_activities_def chess_club_def)

lemma demo_unknown: "activities demo_state ''Knitting Club'' = None"
  by (simp add: demo_state_def seed_activities_def)

lemma full_duo: "activities full_state ''Duo'' = Some duo"
  by (simp add: full_state_def)

subsection \<open>Shape of a successful roster mutation\<close>

lemma signup_success_shape:
  assumes "signup_for_activity s activity_name email req = (Inr r, s')"
  shows "\<exists>a. activities s activity_name = Some a \<and> email \<notin> set (participants a)
           \<and> s' = s\<lparr>activities := (activities s)(activity_name \<mapsto>
                        a\<lparr>participants := participants a @ [email]\<rparr>)\<rparr>"
  using assms
  by (auto simp: signup_for_activity_def split: sum.splits option.splits if_splits)

lemma unregister_success_shape:
  assumes "unregister_from_activity s activity_name email req = (Inr r, s')"
  shows "\<exists>a. activities s activity_name = Some a \<and> email \<in> set (participants a)
           \<and> s' = s\<lparr>activities := (activities s)(activity_name \<mapsto>
                        a\<lparr>participants := remove1 email (participants a)\<rparr>)\<rparr>"
  using assms
  by (auto simp: unregister_from_activity_def split: sum.splits option.splits if_splits)

lemma demo_signup:
  "signup_for_activity demo_state ''Chess Club'' ''new@mergington.edu'' (with_cookie ''tok-1'') =
     (Inr [(''message'', ''Signed up new@mergington.edu for Chess Club'')], demo_after_signup)"
  by (simp add: signup_for_activity_def demo_auth demo_chess demo_after_signup_def chess_club_def)

lemma demo_unregister:
  "unregister_from_activity demo_state ''Chess Club'' ''michael@mergington.edu''
     (with_cookie ''tok-1'') =
     (Inr [(''message'', ''Unregistered michael@mergington.edu from Chess Club'')],
      demo_after_unregister)"
  by (simp add: unregister_from_activity_def demo_auth demo_chess demo_after_unregister_def
      chess_club_def)

subsection \<open>Signup\<close>

text \<open>
  Claim C1. For an authenticated request, an activity present in the registry and an
  email that is not yet on its roster, \<open>signup_for_activity\<close> succeeds and the roster
  afterwards is the old roster with the email appended at the end. Nothing is assumed
  about \<open>max_participants\<close>: the handler never reads it, so the signup also goes through
  on a roster that is already at or beyond capacity.
\<close>

theorem signup_appends:
  assumes "require_teacher s req = Inr u"
      and "activities s activity_name = Some a"
      and "email \<notin> set (participants a)"
  shows "signup_for_activity s activity_name email req =
           (Inr [(''message'', ''Signed up '' @ email @ '' for '' @ activity_name)],
            s\<lparr>activities := (activities s)(activity_name \<mapsto>
                 a\<lparr>participants := participants a @ [email]\<rparr>)\<rparr>)"
  using assms by (simp add: signup_for_activity_def)

text \<open>The instance is a roster of two in an activity with two places.\<close>

theorem signup_appends_witness:
  "require_teacher full_state (with_cookie ''tok-1'') = Inr ''mr.smith''
   \<and> activities full_state ''Duo'' = Some duo
   \<and> ''c@mergington.edu'' \<notin> set (participants duo)
   \<and> int (length (participants duo)) \<ge> max_participants duo
   \<and> signup_for_activity full_state ''Duo'' ''c@mergington.edu'' (with_cookie ''tok-1'') =
       (Inr [(''message'', ''Signed up c@mergington.edu for Duo'')],
        full_state\<lparr>activities := (activities full_state)(''Duo'' \<mapsto>
           duo\<lparr>participants :=
                  [''a@mergington.edu'', ''b@mergington.edu'', ''c@mergington.edu'']\<rparr>)\<rparr>)"
proof -
  have n: "''c@mergington.edu'' \<notin> set (participants duo)"
    by (simp add: duo_def)
  have cap: "int (length (participants duo)) \<ge> max_participants duo"
    by (simp add: duo_def)
  show ?thesis
    using full_auth full_duo n cap signup_appends [OF full_auth full_duo n]
    by (simp add: duo_def)
qed

subsection \<open>Unknown activities\<close>

text \<open>
  Claim C2 says that a signup or unregister request for a name that is not a key of the
  registry fails with 404 whatever the authentication state. Both handlers call
  \<open>require_teacher\<close> before they look the activity up, so a request without a session
  is answered 401 even when the activity does not exist.
\<close>

theorem unknown_activity_counterexample:
  "activities demo_state ''Knitting Club'' = None
   \<and> signup_for_activity demo_state ''Knitting Club'' ''new@mergington.edu'' no_cookie =
       (Inl (HTTPException 401 ''Only logged-in teachers can register or unregister students''),
        demo_state)
   \<and> unregister_from_activity demo_state ''Knitting Club'' ''new@mergington.edu'' no_cookie =
       (Inl (HTTPException 401 ''Only logged-in teachers can register or unregister students''),
        demo_state)
   \<and> HTTPException 401 ''Only logged-in teachers can register or unregister students''
       \<noteq> HTTPException 404 ''Activity not found''"
  by (simp add: demo_unknown signup_for_activity_def unregister_from_activity_def
      require_teacher_def get_current_teacher_def no_cookie_def unauthenticated_def)

text \<open>
  Claim C2, amended. For a name that is not a key of the registry, signup and unregister
  leave the state unchanged and fail with 404 \<open>Activity not found\<close> when the request
  carries a session that resolves to a teacher, and with the 401 of the gate otherwise.
\<close>

theorem unknown_activity_after_gate:
  assumes "activities s activity_name = None"
  shows "signup_for_activity s activity_name email req =
           (Inl (if truthy (get_current_teacher s req)
                 then HTTPException 404 ''Activity not found''
                 else HTTPException 401
                        ''Only logged-in teachers can register or unregister students''),
            s)
       \<and> unregister_from_activity s activity_name email req =
           (Inl (if truthy (get_current_teacher s req)
                 then HTTPException 404 ''Activity not found''
                 else HTTPException 401
                        ''Only logged-in teachers can register or unregister students''),
            s)"
  using assms
  by (simp add: signup_for_activity_def unregister_from_activity_def require_teacher_def
      unauthenticated_def Let_def)

theorem unknown_activity_after_gate_witness:
  "activities demo_state ''Knitting Club'' = None
   \<and> signup_for_activity demo_state ''Knitting Club'' ''new@mergington.edu''
       (with_cookie ''tok-1'') =
       (Inl (HTTPException 404 ''Activity not found''), demo_state)
   \<and> unregister_from_activity demo_state ''Knitting Club'' ''new@mergington.edu''
       (with_cookie ''tok-1'') =
       (Inl (HTTPException 404 ''Activity not found''), demo_state)
   \<and> signup_for_activity demo_state ''Knitting Club'' ''new@mergington.edu'' no_cookie =
       (Inl (HTTPException 401 ''Only logged-in teachers can register or unregister students''),
        demo_state)"
  using demo_unknown
    unknown_activity_after_gate [OF demo_unknown,
      where email = "''new@mergington.edu''" and req = "with_cookie ''tok-1''"]
    unknown_activity_after_gate [OF demo_unknown,
      where email = "''new@mergington.edu''" and req = no_cookie]
  by (simp add: demo_current demo_current_none)

subsection \<open>Repeated signup\<close>

text \<open>
  Claim C3. When a signup of an email for an activity has succeeded, a signup of the same
  email for the same activity by a request that is authenticated in the resulting state
  fails with 400 \<open>Student is already signed up\<close> and returns that state unchanged, so the
  roster and its length stay as they were.
\<close>

theorem repeated_signup_rejected:
  assumes "signup_for_activity s activity_name email req = (Inr r, s')"
      and "require_teacher s' req' = Inr u"
  shows "signup_for_activity s' activity_name email req' =
           (Inl (HTTPException 400 ''Student is already signed up''), s')"
proof -
  from assms(1) obtain a where
    s': "s' = s\<lparr>activities := (activities s)(activity_name \<mapsto>
                 a\<lparr>participants := participants a @ [email]\<rparr>)\<rparr>"
    using signup_success_shape by blast
  then have "activities s' activity_name = Some (a\<lparr>participants := participants a @ [email]\<rparr>)"
    by simp
  with assms(2) show ?thesis
    by (simp add: signup_for_activity_def)
qed

theorem repeated_signup_rejected_witness:
  "signup_for_activity demo_state ''Chess Club'' ''new@mergington.edu'' (with_cookie ''tok-1'') =
     (Inr [(''message'', ''Signed up new@mergington.edu for Chess Club'')], demo_after_signup)
   \<and> require_teacher demo_after_signup (with_cookie ''tok-1'') = Inr ''mr.smith''
   \<and> signup_for_activity demo_after_signup ''Chess Club'' ''new@mergington.edu''
       (with_cookie ''tok-1'') =
       (Inl (HTTPException 400 ''Student is already signed up''), demo_after_signup)"
  using demo_signup demo_after_signup_auth
    repeated_signup_rejected [OF demo_signup demo_after_signup_auth]
  by simp

subsection \<open>Unregister\<close>

text \<open>
  Claim C4. For an authenticated request and an activity present in the registry,
  \<open>unregister_from_activity\<close> fails with 400 and returns the state unchanged when the
  email is not on the roster; when it is, the call succeeds and the roster afterwards is
  the old one with the first occurrence of the email removed (\<^verbatim>\<open>list.remove\<close>).
\<close>

theorem unregister_outcome:
  assumes "require_teacher s req = Inr u"
      and "activities s activity_name = Some a"
  shows "unregister_from_activity s activity_name email req =
           (if email \<in> set (participants a)
            then (Inr [(''message'', ''Unregistered '' @ email @ '' from '' @ activity_name)],
                  s\<lparr>activities := (activities s)(activity_name \<mapsto>
                       a\<lparr>participants := remove1 email (participants a)\<rparr>)\<rparr>)
            else (Inl (HTTPException 400 ''Student is not signed up for this activity''), s))"
  using assms by (simp add: unregister_from_activity_def)

theorem unregister_outcome_witness:
  "require_teacher demo_state (with_cookie ''tok-1'') = Inr ''mr.smith''
   \<and> activities demo_state ''Chess Club'' = Some chess_club
   \<and> unregister_from_activity demo_state ''Chess Club'' ''michael@mergington.edu''
       (with_cookie ''tok-1'') =
       (Inr [(''message'', ''Unregistered michael@mergington.edu from Chess Club'')],
        demo_after_unregister)
   \<and> unregister_from_activity demo_state ''Chess Club'' ''ghost@mergington.edu''
       (with_cookie ''tok-1'') =
       (Inl (HTTPException 400 ''Student is not signed up for this activity''), demo_state)"
  using demo_auth demo_chess
    unregister_outcome [OF demo_auth demo_chess, where email = "''michael@mergington.edu''"]
    unregister_outcome [OF demo_auth demo_chess, where email = "''ghost@mergington.edu''"]
  by (simp add: chess_club_def demo_after_unregister_def)

subsection \<open>Unauthenticated requests\<close>

text \<open>
  Claim C5. A signup or unregister request whose session cookie is absent, or whose token
  is not a key of the session table, fails with 401 and the one message of
  \<open>require_teacher\<close>, the same for both routes, and the state it returns is the state it
  was given: no roster and no session changes.
\<close>

theorem unauthenticated_mutation_rejected:
  assumes "case cookies req ''teacher_session'' of
             None \<Rightarrow> True | Some t \<Rightarrow> teacher_sessions s t = None"
  shows "signup_for_activity s activity_name email req =
           (Inl (HTTPException 401
                   ''Only logged-in teachers can register or unregister students''), s)
       \<and> unregister_from_activity s activity_name email req =
           (Inl (HTTPException 401
                   ''Only logged-in teachers can register or unregister students''), s)"
proof -
  from assms have "get_current_teacher s req = None"
    by (rule get_current_teacher_None)
  then have "require_teacher s req = Inl unauthenticated"
    by (rule require_teacher_unauth)
  then show ?thesis
    by (simp add: signup_for_activity_def unregister_from_activity_def unauthenticated_def)
qed

theorem unauthenticated_mutation_rejected_witness:
  "(case cookies (with_cookie ''stale'') ''teacher_session'' of
      None \<Rightarrow> True | Some t \<Rightarrow> teacher_sessions demo_state t = None)
   \<and> (case cookies no_cookie ''teacher_session'' of
      None \<Rightarrow> True | Some t \<Rightarrow> teacher_sessions demo_state t = None)
   \<and> signup_for_activity demo_state ''Chess Club'' ''new@mergington.edu'' (with_cookie ''stale'') =
       (Inl (HTTPException 401 ''Only logged-in teachers can register or unregister students''),
        demo_state)
   \<and> unregister_from_activity demo_state ''Chess Club'' ''michael@mergington.edu'' no_cookie =
       (Inl (HTTPException 401 ''Only logged-in teachers can register or unregister students''),
        demo_state)"
proof -
  have stale: "case cookies (with_cookie ''stale'') ''teacher_session'' of
      None \<Rightarrow> True | Some t \<Rightarrow> teacher_sessions demo_state t = None"
    by (simp add: with_cookie_def demo_state_def)
  have none: "case cookies no_cookie ''teacher_session'' of
      None \<Rightarrow> True | Some t \<Rightarrow> teacher_sessions demo_state t = None"
    by (simp add: no_cookie_def)
  show ?thesis
    using stale none
      unauthenticated_mutation_rejected [OF stale,
        where activity_name = "''Chess Club''" and email = "''new@mergington.edu''"]
      unauthenticated_mutation_rejected [OF none,
        where activity_name = "''Chess Club''" and email = "''michael@mergington.edu''"]
    by simp
qed

subsection \<open>Rosters stay free of repetitions\<close>

lemma seed_distinct:
  "map_of seed_activities name = Some a \<Longrightarrow> distinct (participants a)"
  by (drule map_of_SomeD) (auto simp: seed_activities_def)

lemma login_activities: "activities (snd (login_teacher s c t)) = activities s"
  by (simp add: login_teacher_def Let_def)

lemma logout_activities: "activities (snd (logout_teacher s req)) = activities s"
  by (simp add: logout_teacher_def Let_def)

lemma signup_distinct:
  "rosters_distinct s \<Longrightarrow> rosters_distinct (snd (signup_for_activity s name email req))"
  by (auto simp: rosters_distinct_def signup_for_activity_def
      split: sum.splits option.splits if_splits)

lemma unregister_distinct:
  "rosters_distinct s \<Longrightarrow> rosters_distinct (snd (unregister_from_activity s name email req))"
  by (auto simp: rosters_distinct_def unregister_from_activity_def
      split: sum.splits option.splits if_splits)

lemma handle_distinct: "rosters_distinct s \<Longrightarrow> rosters_distinct (handle s c)"
proof (cases c)
  case (Login credentials session_token)
  assume "rosters_distinct s"
  then show ?thesis
    using Login by (simp add: rosters_distinct_def login_activities)
next
  case (Logout req)
  assume "rosters_distinct s"
  then show ?thesis
    using Logout by (simp add: rosters_distinct_def logout_activities)
next
  case (Signup name email req)
  assume "rosters_distinct s"
  then show ?thesis
    using Signup by (simp add: signup_distinct)
next
  case (Unregister name email req)
  assume "rosters_distinct s"
  then show ?thesis
    using Unregister by (simp add: unregister_distinct)
qed

lemma serve_distinct: "rosters_distinct s \<Longrightarrow> rosters_distinct (serve s calls)"
  unfolding serve_def
  by (induction calls arbitrary: s) (simp_all add: handle_distinct)

lemma startup_distinct: "startup cfg = Inr s0 \<Longrightarrow> rosters_distinct s0"
  by (auto simp: startup_def rosters_distinct_def seed_distinct split: sum.splits)

lemma load_mixed:
  "load_teachers mixed_file =
     Inr [(JStr ''mr.smith'', JStr ''secret''), (JStr ''ms.lee'', JStr ''new'')]"
  by (simp add: load_teachers_def mixed_file_def mixed_data_def entry_def obj_get_def
      hashable_def)

lemma startup_started: "startup mixed_file = Inr started"
  by (simp add: startup_def load_mixed started_def)

lemma serve_demo_calls:
  "serve started demo_calls =
     started\<lparr>teacher_sessions := [''tok-1'' \<mapsto> ''mr.smith''],
             activities := (map_of seed_activities)(''Chess Club'' \<mapsto>
               chess_club\<lparr>participants := [''michael@mergington.edu'', ''daniel@mergington.edu'',
                                             ''new@mergington.edu'']\<rparr>)\<rparr>"
  by (simp add: serve_def demo_calls_def started_def login_teacher_def signup_for_activity_def
      require_teacher_def get_current_teacher_def with_cookie_def seed_activities_def
      chess_club_def)

lemma serve_demo_login_then_signup:
  "signup_for_activity (serve started [hd demo_calls]) ''Chess Club''
     ''new@mergington.edu'' (with_cookie ''tok-1'') =
   (Inr [(''message'', ''Signed up new@mergington.edu for Chess Club'')],
    serve started demo_calls)"
  by (simp add: serve_def demo_calls_def started_def login_teacher_def signup_for_activity_def
      require_teacher_def get_current_teacher_def with_cookie_def seed_activities_def)

text \<open>
  Claim C6. In every state the server reaches from start-up by any sequence of login,
  logout, signup and unregister requests (failed ones included), every roster is free of
  repetitions; and whenever a signup succeeds in such a state, the email occurs exactly
  once on the roster of that activity afterwards.
\<close>

theorem reachable_rosters_unique:
  assumes "startup cfg = Inr s0"
  shows "(activities (serve s0 calls) name = Some a \<longrightarrow> distinct (participants a))
       \<and> (signup_for_activity (serve s0 calls) name email req = (Inr r, s') \<longrightarrow>
            (\<exists>a'. activities s' name = Some a' \<and> count_list (participants a') email = 1))"
proof
  have "rosters_distinct (serve s0 calls)"
    using assms by (simp add: startup_distinct serve_distinct)
  then show "activities (serve s0 calls) name = Some a \<longrightarrow> distinct (participants a)"
    by (simp add: rosters_distinct_def)
  show "signup_for_activity (serve s0 calls) name email req = (Inr r, s') \<longrightarrow>
            (\<exists>a'. activities s' name = Some a' \<and> count_list (participants a') email = 1)"
  proof
    assume "signup_for_activity (serve s0 calls) name email req = (Inr r, s')"
    then obtain a0 where "email \<notin> set (participants a0)"
      and "s' = (serve s0 calls)\<lparr>activities := (activities (serve s0 calls))(name \<mapsto>
                 a0\<lparr>participants := participants a0 @ [email]\<rparr>)\<rparr>"
      using signup_success_shape by blast
    then show "\<exists>a'. activities s' name = Some a' \<and> count_list (participants a') email = 1"
      by (simp add: count_list_0_iff)
  qed
qed

theorem reachable_rosters_unique_witness:
  "startup mixed_file = Inr started
   \<and> (\<exists>a. activities (serve started demo_calls) ''Chess Club'' = Some a
          \<and> participants a = [''michael@mergington.edu'', ''daniel@mergington.edu'',
                              ''new@mergington.edu'']
          \<and> distinct (participants a))
   \<and> (\<exists>r s'. signup_for_activity (serve started [hd demo_calls]) ''Chess Club''
               ''new@mergington.edu'' (with_cookie ''tok-1'') = (Inr r, s')
          \<and> (\<exists>a'. activities s' ''Chess Club'' = Some a'
                \<and> count_list (participants a') ''new@mergington.edu'' = 1))"
proof -
  let ?a = "chess_club\<lparr>participants := [''michael@mergington.edu'', ''daniel@mergington.edu'',
                                        ''new@mergington.edu'']\<rparr>"
  have a: "activities (serve started demo_calls) ''Chess Club'' = Some ?a"
    by (simp add: serve_demo_calls)
  note thm1 = reachable_rosters_unique [OF startup_started,
     where calls = demo_calls and name = "''Chess Club''" and a = ?a]
  note thm2 = reachable_rosters_unique [OF startup_started,
     where calls = "[hd demo_calls]" and name = "''Chess Club''"
       and email = "''new@mergington.edu''" and req = "with_cookie ''tok-1''"
       and r = "[(''message'', ''Signed up new@mergington.edu for Chess Club'')]"
       and s' = "serve started demo_calls"]
  from thm1 a have "distinct (participants ?a)" by blast
  moreover from thm2 serve_demo_login_then_signup have
    "\<exists>a'. activities (serve started demo_calls) ''Chess Club'' = Some a'
         \<and> count_list (participants a') ''new@mergington.edu'' = 1" by blast
  ultimately show ?thesis
    using startup_started a serve_demo_login_then_signup by auto
qed

subsection \<open>Credential loading\<close>

lemma load_loop_well_typed:
  "entry_well_typed t \<Longrightarrow>
   load_loop (t # ts) creds =
     (if valid_entry t
      then load_loop ts (dict_set (username_of t) (password_of t) creds)
      else load_loop ts creds)"
  by (cases t)
     (auto simp: entry_well_typed_def valid_entry_def is_object_def username_of_def
        password_of_def Let_def)

lemma load_loop_ill_typed:
  "\<not> entry_well_typed t \<Longrightarrow>
   load_loop (t # ts) creds = Inl AttributeError \<or> load_loop (t # ts) creds = Inl TypeError"
  by (cases t)
     (auto simp: entry_well_typed_def valid_entry_def is_object_def username_of_def
        password_of_def Let_def)

lemma load_loop_Inr_head: "load_loop (t # ts) creds = Inr d \<Longrightarrow> entry_well_typed t"
  using load_loop_ill_typed [of t ts creds] by auto

lemma load_loop_errors:
  "load_loop ts creds = Inl err \<Longrightarrow> err = AttributeError \<or> err = TypeError"
proof (induction ts arbitrary: creds)
  case Nil
  then show ?case by simp
next
  case (Cons t ts)
  show ?case
  proof (cases "entry_well_typed t")
    case True
    with Cons.prems Cons.IH show ?thesis
      by (simp add: load_loop_well_typed del: load_loop.simps split: if_splits)
  next
    case False
    with Cons.prems show ?thesis
      using load_loop_ill_typed [of t ts creds] by auto
  qed
qed

lemma load_loop_isl: "isl (load_loop ts creds) \<longleftrightarrow> \<not> list_all entry_well_typed ts"
proof (induction ts arbitrary: creds)
  case Nil
  then show ?case by simp
next
  case (Cons t ts)
  show ?case
  proof (cases "entry_well_typed t")
    case True
    then show ?thesis
      using Cons.IH by (simp add: load_loop_well_typed del: load_loop.simps)
  next
    case False
    then show ?thesis
      using load_loop_ill_typed [of t ts creds] by auto
  qed
qed

lemma load_loop_lookup:
  "load_loop ts creds = Inr d \<Longrightarrow>
   dict_get d k =
     dict_get (rev (map entry_credential (filter valid_entry ts)) @ creds) k"
proof (induction ts arbitrary: creds)
  case Nil
  then show ?case by simp
next
  case (Cons t ts)
  from Cons.prems have ok: "entry_well_typed t"
    by (rule load_loop_Inr_head)
  show ?case
  proof (cases "valid_entry t")
    case True
    with ok Cons.prems have
      "load_loop ts (dict_set (username_of t) (password_of t) creds) = Inr d"
      by (simp add: load_loop_well_typed del: load_loop.simps)
    then have "dict_get d k =
        dict_get (rev (map entry_credential (filter valid_entry ts))
                  @ dict_set (username_of t) (password_of t) creds) k"
      by (rule Cons.IH)
    moreover have "dict_get (entry_credential t # creds) k =
        dict_get (dict_set (username_of t) (password_of t) creds) k"
      by (simp add: entry_credential_def dict_get_dict_set)
    ultimately show ?thesis
      using True by (simp add: dict_get_append split: option.splits)
  next
    case False
    with ok Cons.prems have "load_loop ts creds = Inr d"
      by (simp add: load_loop_well_typed del: load_loop.simps)
    then have "dict_get d k =
        dict_get (rev (map entry_credential (filter valid_entry ts)) @ creds) k"
      by (rule Cons.IH)
    with False show ?thesis by simp
  qed
qed

lemma load_loop_keeps_nonempty: "creds \<noteq> [] \<Longrightarrow> load_loop ts creds = Inr d \<Longrightarrow> d \<noteq> []"
proof (induction ts arbitrary: creds)
  case Nil
  then show ?case by simp
next
  case (Cons t ts)
  from Cons.prems(2) have ok: "entry_well_typed t"
    by (rule load_loop_Inr_head)
  show ?case
  proof (cases "valid_entry t")
    case True
    with ok Cons.prems have
      "load_loop ts (dict_set (username_of t) (password_of t) creds) = Inr d"
      by (simp add: load_loop_well_typed del: load_loop.simps)
    then show ?thesis
      using Cons.IH [of "dict_set (username_of t) (password_of t) creds"]
      by (simp add: dict_set_not_Nil)
  next
    case False
    with ok Cons.prems have "load_loop ts creds = Inr d"
      by (simp add: load_loop_well_typed del: load_loop.simps)
    with Cons.prems(1) show ?thesis
      by (rule Cons.IH)
  qed
qed

lemma load_loop_Nil_iff:
  "load_loop ts creds = Inr d \<Longrightarrow> d = [] \<longleftrightarrow> creds = [] \<and> filter valid_entry ts = []"
proof (induction ts arbitrary: creds)
  case Nil
  then show ?case by auto
next
  case (Cons t ts)
  from Cons.prems have ok: "entry_well_typed t"
    by (rule load_loop_Inr_head)
  show ?case
  proof (cases "valid_entry t")
    case True
    with ok Cons.prems have
      "load_loop ts (dict_set (username_of t) (password_of t) creds) = Inr d"
      by (simp add: load_loop_well_typed del: load_loop.simps)
    then have "d \<noteq> []"
      using load_loop_keeps_nonempty dict_set_not_Nil by blast
    with True show ?thesis by simp
  next
    case False
    with ok Cons.prems have "load_loop ts creds = Inr d"
      by (simp add: load_loop_well_typed del: load_loop.simps)
    with False Cons.IH show ?thesis by simp
  qed
qed

text \<open>The loader on a decoded file, in terms of the entries the file lists.\<close>

lemma load_teachers_no_listing:
  "listing data = None \<Longrightarrow>
   load_teachers (Decoded data) = Inl AttributeError \<or>
   load_teachers (Decoded data) = Inl TypeError"
proof (cases data)
  case (JObj members)
  assume "listing data = None"
  with JObj obtain err where it: "iterate (obj_get members ''teachers'' (JArr [])) = Inl err"
    by (auto simp: listing_def split: sum.splits)
  then have "err = TypeError"
    by (cases "obj_get members ''teachers'' (JArr [])") auto
  with JObj it show ?thesis
    by (simp add: load_teachers_def)
qed (simp_all add: load_teachers_def)

lemma load_teachers_listing:
  "listing data = Some ts \<Longrightarrow>
   load_teachers (Decoded data) =
     (case load_loop ts [] of
        Inl err \<Rightarrow> Inl err
      | Inr creds \<Rightarrow>
          if creds = []
          then Inl (RuntimeError ''No valid teacher credentials found in teachers.json'')
          else Inr creds)"
  by (cases data) (auto simp: listing_def load_teachers_def split: sum.splits)

lemma load_teachers_ill_typed:
  assumes "\<not> well_typed data"
  shows "load_teachers (Decoded data) = Inl AttributeError \<or>
         load_teachers (Decoded data) = Inl TypeError"
proof (cases "listing data")
  case None
  then show ?thesis by (rule load_teachers_no_listing)
next
  case (Some ts)
  with assms have "\<not> list_all entry_well_typed ts"
    by (simp add: well_typed_def listed_entries_def)
  then have "isl (load_loop ts [])"
    by (simp add: load_loop_isl)
  then obtain err where err: "load_loop ts [] = Inl err"
    by (cases "load_loop ts []") auto
  then have "err = AttributeError \<or> err = TypeError"
    by (rule load_loop_errors)
  with Some err show ?thesis
    by (auto simp: load_teachers_listing)
qed

lemma load_teachers_well_typed:
  assumes "well_typed data"
  shows "\<exists>creds. load_loop (listed_entries data) [] = Inr creds \<and>
           load_teachers (Decoded data) =
             (if filter valid_entry (listed_entries data) = []
              then Inl (RuntimeError ''No valid teacher credentials found in teachers.json'')
              else Inr creds)"
proof -
  from assms obtain ts where ts: "listing data = Some ts" and all: "list_all entry_well_typed ts"
    by (auto simp: well_typed_def listed_entries_def)
  from all have "\<not> isl (load_loop ts [])"
    by (simp add: load_loop_isl)
  then obtain creds where creds: "load_loop ts [] = Inr creds"
    by (cases "load_loop ts []") auto
  then have "creds = [] \<longleftrightarrow> filter valid_entry ts = []"
    by (simp add: load_loop_Nil_iff)
  with ts creds show ?thesis
    by (simp add: load_teachers_listing listed_entries_def)
qed

lemma load_teachers_Inr:
  assumes "load_teachers cfg = Inr creds"
  shows "\<exists>data. cfg = Decoded data \<and> well_typed data \<and>
           load_loop (listed_entries data) [] = Inr creds"
proof (cases cfg)
  case Missing
  with assms show ?thesis by (simp add: load_teachers_def)
next
  case Unreadable
  with assms show ?thesis by (simp add: load_teachers_def)
next
  case (Decoded data)
  have wt: "well_typed data"
    using load_teachers_ill_typed [of data] assms Decoded by auto
  from load_teachers_well_typed [OF wt] assms Decoded
  have "load_loop (listed_entries data) [] = Inr creds"
    by (auto split: if_splits)
  with Decoded wt show ?thesis by simp
qed

lemma load_teachers_lookup:
  assumes "load_teachers (Decoded data) = Inr creds"
  shows "dict_get creds k =
           dict_get (rev (map entry_credential (filter valid_entry (listed_entries data)))) k"
  using load_teachers_Inr [OF assms] load_loop_lookup [of "listed_entries data" "[]" creds k]
  by simp

text \<open>
  A successfully loaded store holds, under a string key, only a non-empty string key and
  a truthy value.
\<close>

lemma load_teachers_fields_truthy:
  assumes "load_teachers cfg = Inr creds" and "dict_get creds (JStr u) = Some v"
  shows "u \<noteq> [] \<and> truthy_json v"
proof -
  from load_teachers_Inr [OF assms(1)] obtain data where
    cfg: "cfg = Decoded data" by auto
  from assms cfg have
    "dict_get (rev (map entry_credential (filter valid_entry (listed_entries data)))) (JStr u)
       = Some v"
    by (simp add: load_teachers_lookup)
  then obtain k' where
    mem: "(k', v) \<in> set (rev (map entry_credential (filter valid_entry (listed_entries data))))"
    and eq: "key_eq k' (JStr u)"
    by (auto dest: dict_get_SomeD)
  from eq have k': "k' = JStr u"
    by (rule key_eq_JStr_right)
  from mem obtain t where "valid_entry t" and "entry_credential t = (k', v)"
    by auto
  with k' show ?thesis
    by (auto simp: valid_entry_def entry_credential_def)
qed

lemma load_duplicate: "load_teachers duplicate_file = Inr [(JStr ''ms.lee'', JStr ''new'')]"
  by (simp add: load_teachers_def duplicate_file_def duplicate_data_def entry_def obj_get_def
      hashable_def)

lemma load_stray: "load_teachers stray_file = Inl AttributeError"
  by (simp add: load_teachers_def stray_file_def stray_data_def entry_def obj_get_def
      hashable_def)

lemma listed_stray: "listed_entries stray_data = [entry ''mr.smith'' ''secret'', JStr ''abc'']"
  by (simp add: listed_entries_def listing_def stray_data_def obj_get_def)

lemma listed_duplicate:
  "listed_entries duplicate_data = [entry ''ms.lee'' ''old'', entry ''ms.lee'' ''new'']"
  by (simp add: listed_entries_def listing_def duplicate_data_def obj_get_def)

lemma listed_mixed:
  "listed_entries mixed_data =
     [entry ''mr.smith'' ''secret'', JObj [(''username'', JStr ''nobody'')],
      entry ''ms.lee'' '''', JObj [(''username'', JNull), (''password'', JInt 0)],
      entry ''ms.lee'' ''old'', entry ''ms.lee'' ''new'']"
  by (simp add: listed_entries_def listing_def mixed_data_def obj_get_def)

lemma listed_blank: "listed_entries blank_data = [entry ''ms.lee'' '''', JObj []]"
  by (simp add: listed_entries_def listing_def blank_data_def obj_get_def)

lemma valid_entry_entry [simp]: "valid_entry (entry u p) \<longleftrightarrow> u \<noteq> [] \<and> p \<noteq> []"
  by (simp add: valid_entry_def is_object_def username_of_def password_of_def entry_def
      obj_get_def)

lemma entry_credential_entry [simp]: "entry_credential (entry u p) = (JStr u, JStr p)"
  by (simp add: entry_credential_def username_of_def password_of_def entry_def obj_get_def)

lemma entry_well_typed_entry [simp]: "entry_well_typed (entry u p)"
  by (simp add: entry_well_typed_def is_object_def username_of_def hashable_def entry_def
      obj_get_def)

lemma entry_well_typed_invalid_object:
  "\<not> valid_entry (JObj members) \<Longrightarrow> entry_well_typed (JObj members)"
  by (simp add: entry_well_typed_def is_object_def)

lemma not_valid_nobody [simp]: "\<not> valid_entry (JObj [(''username'', JStr ''nobody'')])"
  by (simp add: valid_entry_def password_of_def obj_get_def)

lemma not_valid_null_zero [simp]:
  "\<not> valid_entry (JObj [(''username'', JNull), (''password'', JInt 0)])"
  by (simp add: valid_entry_def password_of_def obj_get_def)

lemma not_valid_empty_object [simp]: "\<not> valid_entry (JObj [])"
  by (simp add: valid_entry_def password_of_def obj_get_def)

lemma not_valid_string [simp]: "\<not> valid_entry (JStr s)"
  by (simp add: valid_entry_def is_object_def)

lemma well_typed_mixed: "well_typed mixed_data"
  by (simp add: well_typed_def listed_mixed entry_well_typed_invalid_object)
     (simp add: listing_def mixed_data_def obj_get_def)

lemma well_typed_blank: "well_typed blank_data"
  by (simp add: well_typed_def listed_blank entry_well_typed_invalid_object)
     (simp add: listing_def blank_data_def obj_get_def)

lemma ill_typed_stray: "\<not> well_typed stray_data"
  by (simp add: well_typed_def listed_stray entry_well_typed_def is_object_def)

lemma ill_typed_null: "\<not> well_typed null_data"
  by (simp add: well_typed_def listing_def null_data_def obj_get_def)

lemma load_null: "load_teachers (Decoded null_data) = Inl TypeError"
  by (simp add: load_teachers_def null_data_def obj_get_def)

lemma load_blank:
  "load_teachers (Decoded blank_data) =
     Inl (RuntimeError ''No valid teacher credentials found in teachers.json'')"
  by (simp add: load_teachers_def blank_data_def entry_def obj_get_def)

text \<open>
  Claim C9 says that loading fails only when the configuration source is missing or
  yields no valid entry, that entries which are not valid are skipped silently, and that
  on success the result maps each valid entry's username to its password. Neither holds
  of the loader. The first file below exists and lists a valid entry followed by the
  string \<^verbatim>\<open>"abc"\<close>: the loop calls \<^verbatim>\<open>.get\<close> on the string and start-up is
  aborted by \<^verbatim>\<open>AttributeError\<close>, so the element is not skipped. The second file
  lists two valid entries with one username: the loop assigns
  \<^verbatim>\<open>teacher_credentials[username] = password\<close> entry by entry, the later entry
  overwrites the earlier, and the first entry's password is not the one stored.
\<close>

theorem load_teachers_claim_counterexample:
  "stray_file = Decoded stray_data
   \<and> listed_entries stray_data = [entry ''mr.smith'' ''secret'', JStr ''abc'']
   \<and> filter valid_entry (listed_entries stray_data) = [entry ''mr.smith'' ''secret'']
   \<and> load_teachers stray_file = Inl AttributeError
   \<and> duplicate_file = Decoded duplicate_data
   \<and> valid_entry (entry ''ms.lee'' ''old'')
   \<and> entry ''ms.lee'' ''old'' \<in> set (listed_entries duplicate_data)
   \<and> entry_credential (entry ''ms.lee'' ''old'') = (JStr ''ms.lee'', JStr ''old'')
   \<and> load_teachers duplicate_file = Inr [(JStr ''ms.lee'', JStr ''new'')]
   \<and> dict_get [(JStr ''ms.lee'', JStr ''new'')] (JStr ''ms.lee'') \<noteq> Some (JStr ''old'')"
  by (simp add: load_duplicate load_stray listed_stray listed_duplicate)
     (simp add: stray_file_def duplicate_file_def)

text \<open>
  Claim C9, amended. A missing file fails with the first \<^verbatim>\<open>RuntimeError\<close>, a file
  that cannot be read or decoded with the error of the read. A decoded file fails exactly
  when it is not well typed or lists no valid entry: with \<^verbatim>\<open>AttributeError\<close> or
  \<^verbatim>\<open>TypeError\<close> when it is not well typed (it is not an object, its
  \<^verbatim>\<open>"teachers"\<close> member is present and not iterable, some listed entry is not an
  object, or the username of some valid entry is an array or an object), and with the
  second \<^verbatim>\<open>RuntimeError\<close> when it is well typed and lists no valid entry. An entry
  is valid when it is an object whose username and password are both truthy; entries that
  are objects and not valid do not influence the result. On success the result maps a
  key to the password of the last valid entry whose username is that key, and has no other
  keys: the right-hand side looks the key up in the valid entries read backwards, so the
  last one wins.
\<close>

theorem load_teachers_outcome:
  "load_teachers Missing = Inl (RuntimeError ''teachers.json not found in src directory'')
   \<and> load_teachers Unreadable = Inl ReadError
   \<and> (isl (load_teachers (Decoded data)) \<longleftrightarrow>
        \<not> well_typed data \<or> filter valid_entry (listed_entries data) = [])
   \<and> (\<not> well_typed data \<longrightarrow>
        load_teachers (Decoded data) = Inl AttributeError \<or>
        load_teachers (Decoded data) = Inl TypeError)
   \<and> (well_typed data \<and> filter valid_entry (listed_entries data) = [] \<longrightarrow>
        load_teachers (Decoded data) =
          Inl (RuntimeError ''No valid teacher credentials found in teachers.json''))
   \<and> (load_teachers (Decoded data) = Inr creds \<longrightarrow>
        dict_get creds k =
          dict_get (rev (map entry_credential (filter valid_entry (listed_entries data)))) k)"
proof (intro conjI impI)
  show "load_teachers Missing = Inl (RuntimeError ''teachers.json not found in src directory'')"
    by (simp add: load_teachers_def)
  show "load_teachers Unreadable = Inl ReadError"
    by (simp add: load_teachers_def)
  show "isl (load_teachers (Decoded data)) \<longleftrightarrow>
        \<not> well_typed data \<or> filter valid_entry (listed_entries data) = []"
  proof (cases "well_typed data")
    case True
    from load_teachers_well_typed [OF True] True show ?thesis
      by (auto split: if_splits)
  next
    case False
    from load_teachers_ill_typed [OF False] False show ?thesis
      by auto
  qed
  show "load_teachers (Decoded data) = Inl AttributeError \<or>
        load_teachers (Decoded data) = Inl TypeError" if "\<not> well_typed data"
    using that by (rule load_teachers_ill_typed)
  show "load_teachers (Decoded data) =
          Inl (RuntimeError ''No valid teacher credentials found in teachers.json'')"
    if "well_typed data \<and> filter valid_entry (listed_entries data) = []"
    using that load_teachers_well_typed [of data] by auto
  show "dict_get creds k =
          dict_get (rev (map entry_credential (filter valid_entry (listed_entries data)))) k"
    if "load_teachers (Decoded data) = Inr creds"
    using that by (rule load_teachers_lookup)
qed

theorem load_teachers_outcome_witness:
  "well_typed mixed_data
   \<and> filter valid_entry (listed_entries mixed_data) =
       [entry ''mr.smith'' ''secret'', entry ''ms.lee'' ''old'', entry ''ms.lee'' ''new'']
   \<and> load_teachers (Decoded mixed_data) =
       Inr [(JStr ''mr.smith'', JStr ''secret''), (JStr ''ms.lee'', JStr ''new'')]
   \<and> \<not> isl (load_teachers (Decoded mixed_data))
   \<and> dict_get [(JStr ''mr.smith'', JStr ''secret''), (JStr ''ms.lee'', JStr ''new'')]
         (JStr ''ms.lee'') = Some (JStr ''new'')
   \<and> dict_get (rev (map entry_credential (filter valid_entry (listed_entries mixed_data))))
         (JStr ''ms.lee'') = Some (JStr ''new'')
   \<and> \<not> well_typed stray_data
   \<and> load_teachers (Decoded stray_data) = Inl AttributeError
   \<and> \<not> well_typed null_data
   \<and> load_teachers (Decoded null_data) = Inl TypeError
   \<and> well_typed blank_data
   \<and> filter valid_entry (listed_entries blank_data) = []
   \<and> load_teachers (Decoded blank_data) =
       Inl (RuntimeError ''No valid teacher credentials found in teachers.json'')"
proof -
  have mixed: "load_teachers (Decoded mixed_data) =
       Inr [(JStr ''mr.smith'', JStr ''secret''), (JStr ''ms.lee'', JStr ''new'')]"
    using load_mixed by (simp add: mixed_file_def)
  have stray: "load_teachers (Decoded stray_data) = Inl AttributeError"
    using load_stray by (simp add: stray_file_def)
  note at_mixed = load_teachers_outcome [where data = mixed_data
      and creds = "[(JStr ''mr.smith'', JStr ''secret''), (JStr ''ms.lee'', JStr ''new'')]"
      and k = "JStr ''ms.lee''"]
  note at_stray = load_teachers_outcome [where data = stray_data]
  note at_null = load_teachers_outcome [where data = null_data]
  note at_blank = load_teachers_outcome [where data = blank_data]
  from at_mixed mixed have
    "dict_get [(JStr ''mr.smith'', JStr ''secret''), (JStr ''ms.lee'', JStr ''new'')]
         (JStr ''ms.lee'') =
     dict_get (rev (map entry_credential (filter valid_entry (listed_entries mixed_data))))
         (JStr ''ms.lee'')"
    and "\<not> isl (load_teachers (Decoded mixed_data))"
    by simp_all
  moreover from at_stray ill_typed_stray stray have
    "load_teachers (Decoded stray_data) = Inl AttributeError"
    by simp
  moreover from at_null ill_typed_null load_null have
    "load_teachers (Decoded null_data) = Inl TypeError"
    by simp
  moreover have "filter valid_entry (listed_entries blank_data) = []"
    by (simp add: listed_blank)
  moreover from at_blank well_typed_blank this have
    "load_teachers (Decoded blank_data) =
       Inl (RuntimeError ''No valid teacher credentials found in teachers.json'')"
    by simp
  ultimately show ?thesis
    using mixed well_typed_mixed ill_typed_stray ill_typed_null well_typed_blank
    by (simp add: listed_mixed)
qed

subsection \<open>Login\<close>

lemma started_creds: "load_teachers mixed_file = Inr (teacher_credentials started)"
  by (simp add: load_mixed started_def)

text \<open>
  Claim C7. The credential store is the one \<open>load_teachers\<close> returned, and
  \<open>session_token\<close> is the non-empty string the token generator drew for this request.
  The username and the password of a login request are strings, so the store is looked up
  under the string key and a stored value matches only if it is that string. Login with
  a pair that the store holds returns the response that sets the cookie to the token, and
  stores the token with the username in the session table, every other session left as
  it was; any later request presenting the token passes \<open>require_teacher\<close> as that
  username. Login with a username the store does not hold, or with another password,
  fails with 401 and returns the state unchanged, so no session is created.
\<close>

theorem login_teacher_session:
  assumes "load_teachers cfg = Inr (teacher_credentials s)"
      and "session_token \<noteq> []"
  shows "(dict_get (teacher_credentials s) (JStr u) = Some (JStr p) \<longrightarrow>
            login_teacher s \<lparr>username = u, password = p\<rparr> session_token =
              (Inr \<lparr>content = [(''message'', ''Logged in as '' @ u), (''username'', u)],
                    cookie_directives =
                      [Set_Cookie ''teacher_session'' session_token True ''lax'' 28800]\<rparr>,
               s\<lparr>teacher_sessions := (teacher_sessions s)(session_token \<mapsto> u)\<rparr>)
            \<and> (\<forall>req. cookies req ''teacher_session'' = Some session_token \<longrightarrow>
                  require_teacher
                    (snd (login_teacher s \<lparr>username = u, password = p\<rparr> session_token)) req
                  = Inr u))
       \<and> (dict_get (teacher_credentials s) (JStr u) \<noteq> Some (JStr p) \<longrightarrow>
            login_teacher s \<lparr>username = u, password = p\<rparr> session_token =
              (Inl (HTTPException 401 ''Invalid username or password''), s))"
proof (intro conjI impI)
  assume m: "dict_get (teacher_credentials s) (JStr u) = Some (JStr p)"
  with assms(1) have "u \<noteq> [] \<and> truthy_json (JStr p)"
    by (rule load_teachers_fields_truthy)
  then have ne: "u \<noteq> [] \<and> p \<noteq> []"
    by simp
  with m show login: "login_teacher s \<lparr>username = u, password = p\<rparr> session_token =
              (Inr \<lparr>content = [(''message'', ''Logged in as '' @ u), (''username'', u)],
                    cookie_directives =
                      [Set_Cookie ''teacher_session'' session_token True ''lax'' 28800]\<rparr>,
               s\<lparr>teacher_sessions := (teacher_sessions s)(session_token \<mapsto> u)\<rparr>)"
    by (simp add: login_teacher_def)
  show "\<forall>req. cookies req ''teacher_session'' = Some session_token \<longrightarrow>
                  require_teacher
                    (snd (login_teacher s \<lparr>username = u, password = p\<rparr> session_token)) req
                  = Inr u"
    using ne assms(2) by (simp add: login require_teacher_def get_current_teacher_def)
next
  assume "dict_get (teacher_credentials s) (JStr u) \<noteq> Some (JStr p)"
  then show "login_teacher s \<lparr>username = u, password = p\<rparr> session_token =
              (Inl (HTTPException 401 ''Invalid username or password''), s)"
    by (simp add: login_teacher_def)
qed

theorem login_teacher_session_witness:
  "load_teachers mixed_file = Inr (teacher_credentials started)
   \<and> ''tok-1'' \<noteq> []
   \<and> dict_get (teacher_credentials started) (JStr ''mr.smith'') = Some (JStr ''secret'')
   \<and> login_teacher started \<lparr>username = ''mr.smith'', password = ''secret''\<rparr> ''tok-1'' =
       (Inr \<lparr>content = [(''message'', ''Logged in as mr.smith''), (''username'', ''mr.smith'')],
             cookie_directives = [Set_Cookie ''teacher_session'' ''tok-1'' True ''lax'' 28800]\<rparr>,
        started\<lparr>teacher_sessions := [''tok-1'' \<mapsto> ''mr.smith'']\<rparr>)
   \<and> require_teacher
        (snd (login_teacher started \<lparr>username = ''mr.smith'', password = ''secret''\<rparr> ''tok-1''))
        (with_cookie ''tok-1'') = Inr ''mr.smith''
   \<and> dict_get (teacher_credentials started) (JStr ''mr.smith'') \<noteq> Some (JStr ''guess'')
   \<and> login_teacher started \<lparr>username = ''mr.smith'', password = ''guess''\<rparr> ''tok-2'' =
       (Inl (HTTPException 401 ''Invalid username or password''), started)
   \<and> dict_get (teacher_credentials started) (JStr ''nobody'') \<noteq> Some (JStr ''secret'')
   \<and> login_teacher started \<lparr>username = ''nobody'', password = ''secret''\<rparr> ''tok-3'' =
       (Inl (HTTPException 401 ''Invalid username or password''), started)"
proof -
  have t1: "''tok-1'' \<noteq> []" and t2: "''tok-2'' \<noteq> []" and t3: "''tok-3'' \<noteq> []"
    by simp_all
  have m: "dict_get (teacher_credentials started) (JStr ''mr.smith'') = Some (JStr ''secret'')"
    and g: "dict_get (teacher_credentials started) (JStr ''mr.smith'') \<noteq> Some (JStr ''guess'')"
    and n: "dict_get (teacher_credentials started) (JStr ''nobody'') \<noteq> Some (JStr ''secret'')"
    by (simp_all add: started_def)
  have c: "cookies (with_cookie ''tok-1'') ''teacher_session'' = Some ''tok-1''"
    by (simp add: with_cookie_def)
  note ok = login_teacher_session [OF started_creds t1,
    where u = "''mr.smith''" and p = "''secret''"]
  note bad = login_teacher_session [OF started_creds t2,
    where u = "''mr.smith''" and p = "''guess''"]
  note unknown = login_teacher_session [OF started_creds t3,
    where u = "''nobody''" and p = "''secret''"]
  from ok m c have
    "login_teacher started \<lparr>username = ''mr.smith'', password = ''secret''\<rparr> ''tok-1'' =
       (Inr \<lparr>content = [(''message'', ''Logged in as '' @ ''mr.smith''),
                         (''username'', ''mr.smith'')],
             cookie_directives = [Set_Cookie ''teacher_session'' ''tok-1'' True ''lax'' 28800]\<rparr>,
        started\<lparr>teacher_sessions := (teacher_sessions started)(''tok-1'' \<mapsto> ''mr.smith'')\<rparr>)"
    and "require_teacher
        (snd (login_teacher started \<lparr>username = ''mr.smith'', password = ''secret''\<rparr> ''tok-1''))
        (with_cookie ''tok-1'') = Inr ''mr.smith''"
    by blast+
  moreover from bad g have
    "login_teacher started \<lparr>username = ''mr.smith'', password = ''guess''\<rparr> ''tok-2'' =
       (Inl (HTTPException 401 ''Invalid username or password''), started)"
    by blast
  moreover from unknown n have
    "login_teacher started \<lparr>username = ''nobody'', password = ''secret''\<rparr> ''tok-3'' =
       (Inl (HTTPException 401 ''Invalid username or password''), started)"
    by blast
  ultimately show ?thesis
    using started_creds m g n by (simp add: started_def)
qed

subsection \<open>Logout\<close>

lemma fun_upd_None_absent: "m k = None \<Longrightarrow> m(k := None) = m"
  by (rule ext) simp

text \<open>
  Tokens are only ever put into the session table by a login, so the empty string is
  never a key of it.
\<close>

lemma handle_tokens_nonempty:
  "[] \<notin> dom (teacher_sessions s) \<Longrightarrow> token_issued_ok c \<Longrightarrow>
   [] \<notin> dom (teacher_sessions (handle s c))"
  by (cases c)
     (auto simp: login_teacher_def logout_teacher_def signup_for_activity_def
        unregister_from_activity_def Let_def split: sum.splits option.splits if_splits)

lemma serve_tokens_nonempty:
  "[] \<notin> dom (teacher_sessions s) \<Longrightarrow> list_all token_issued_ok calls \<Longrightarrow>
   [] \<notin> dom (teacher_sessions (serve s calls))"
  unfolding serve_def
proof (induction calls arbitrary: s)
  case Nil
  then show ?case by simp
next
  case (Cons c calls)
  from Cons.prems have "[] \<notin> dom (teacher_sessions (handle s c))"
    by (simp add: handle_tokens_nonempty)
  with Cons.prems Cons.IH [of "handle s c"] show ?case by simp
qed

lemma reachable_tokens_nonempty:
  "startup cfg = Inr s0 \<Longrightarrow> list_all token_issued_ok calls \<Longrightarrow>
   [] \<notin> dom (teacher_sessions (serve s0 calls))"
  by (rule serve_tokens_nonempty) (auto simp: startup_def split: sum.splits)

text \<open>
  Claim C8. In a state whose session table has no empty-string key (every reachable
  state, by the lemma above), logout always answers \<open>Logged out\<close> and deletes the cookie;
  the state it returns is the given one with the cookie's token removed from the session
  table, which is the given state itself when the cookie is missing or its token is not
  in the table; a second logout changes nothing more; and any request presenting the
  same cookie afterwards is rejected by \<open>require_teacher\<close> with 401.
\<close>

theorem logout_teacher_invalidates:
  assumes "[] \<notin> dom (teacher_sessions s)"
  shows "logout_teacher s req =
           (\<lparr>content = [(''message'', ''Logged out'')],
             cookie_directives = [Delete_Cookie ''teacher_session'']\<rparr>,
            (case cookies req ''teacher_session'' of
               None \<Rightarrow> s
             | Some t \<Rightarrow> s\<lparr>teacher_sessions := (teacher_sessions s)(t := None)\<rparr>))
       \<and> ((case cookies req ''teacher_session'' of
              None \<Rightarrow> True | Some t \<Rightarrow> teacher_sessions s t = None) \<longrightarrow>
            snd (logout_teacher s req) = s)
       \<and> snd (logout_teacher (snd (logout_teacher s req)) req) = snd (logout_teacher s req)
       \<and> (\<forall>req'. cookies req' ''teacher_session'' = cookies req ''teacher_session'' \<longrightarrow>
            require_teacher (snd (logout_teacher s req)) req' =
              Inl (HTTPException 401
                     ''Only logged-in teachers can register or unregister students''))"
proof (cases "cookies req ''teacher_session''")
  case None
  then show ?thesis
    by (simp add: logout_teacher_def require_teacher_def get_current_teacher_def
        unauthenticated_def)
next
  case (Some t)
  show ?thesis
  proof (cases "t = []")
    case True
    with assms have "teacher_sessions s t = None"
      by (simp add: domIff)
    then have "(teacher_sessions s)(t := None) = teacher_sessions s"
      by (rule fun_upd_None_absent)
    with Some True show ?thesis
      by (simp add: logout_teacher_def require_teacher_def get_current_teacher_def
          unauthenticated_def)
  next
    case False
    with Some show ?thesis
      by (simp add: logout_teacher_def require_teacher_def get_current_teacher_def
          unauthenticated_def fun_upd_None_absent)
  qed
qed

theorem logout_teacher_invalidates_witness:
  "[] \<notin> dom (teacher_sessions demo_state)
   \<and> require_teacher demo_state (with_cookie ''tok-1'') = Inr ''mr.smith''
   \<and> teacher_sessions (snd (logout_teacher demo_state (with_cookie ''tok-1''))) = Map.empty
   \<and> require_teacher (snd (logout_teacher demo_state (with_cookie ''tok-1'')))
       (with_cookie ''tok-1'')
       = Inl (HTTPException 401 ''Only logged-in teachers can register or unregister students'')
   \<and> snd (logout_teacher demo_state (with_cookie ''stale'')) = demo_state
   \<and> snd (logout_teacher demo_state no_cookie) = demo_state"
proof -
  have h: "[] \<notin> dom (teacher_sessions demo_state)"
    by (simp add: demo_state_def)
  have stale: "case cookies (with_cookie ''stale'') ''teacher_session'' of
              None \<Rightarrow> True | Some t \<Rightarrow> teacher_sessions demo_state t = None"
    by (simp add: with_cookie_def demo_state_def)
  have none: "case cookies no_cookie ''teacher_session'' of
              None \<Rightarrow> True | Some t \<Rightarrow> teacher_sessions demo_state t = None"
    by (simp add: no_cookie_def)
  note a = logout_teacher_invalidates [OF h, of "with_cookie ''tok-1''"]
  note b = logout_teacher_invalidates [OF h, of "with_cookie ''stale''"]
  note c = logout_teacher_invalidates [OF h, of no_cookie]
  from a have
    "teacher_sessions (snd (logout_teacher demo_state (with_cookie ''tok-1''))) = Map.empty"
    by (simp add: with_cookie_def demo_state_def)
  moreover from a have
    "require_teacher (snd (logout_teacher demo_state (with_cookie ''tok-1'')))
       (with_cookie ''tok-1'')
       = Inl (HTTPException 401 ''Only logged-in teachers can register or unregister students'')"
    by blast
  moreover from b stale have
    "snd (logout_teacher demo_state (with_cookie ''stale'')) = demo_state"
    by blast
  moreover from c none have "snd (logout_teacher demo_state no_cookie) = demo_state"
    by blast
  ultimately show ?thesis
    using h demo_auth by simp
qed

subsection \<open>Frame of a roster mutation\<close>

text \<open>
  Claim C10. A successful signup or unregister for an activity leaves the credential
  store, the session table, the set of activity names and every other activity's record
  as they were, and of the activity itself it keeps the description, the schedule and
  \<open>max_participants\<close>: only that activity's roster can differ. (Each seed roster is a
  list literal of its own and no handler stores a roster anywhere else, so no two records
  share one.)
\<close>

theorem roster_mutation_frame:
  assumes "signup_for_activity s activity_name email req = (Inr r, s')
         \<or> unregister_from_activity s activity_name email req = (Inr r, s')"
  shows "teacher_credentials s' = teacher_credentials s
       \<and> teacher_sessions s' = teacher_sessions s
       \<and> dom (activities s') = dom (activities s)
       \<and> (\<forall>other. other \<noteq> activity_name \<longrightarrow> activities s' other = activities s other)
       \<and> (\<exists>a a'. activities s activity_name = Some a \<and> activities s' activity_name = Some a'
            \<and> description a' = description a \<and> schedule a' = schedule a
            \<and> max_participants a' = max_participants a)"
  using assms
proof
  assume "signup_for_activity s activity_name email req = (Inr r, s')"
  then obtain a where "activities s activity_name = Some a"
    and "s' = s\<lparr>activities := (activities s)(activity_name \<mapsto>
                 a\<lparr>participants := participants a @ [email]\<rparr>)\<rparr>"
    using signup_success_shape by blast
  then show ?thesis by auto
next
  assume "unregister_from_activity s activity_name email req = (Inr r, s')"
  then obtain a where "activities s activity_name = Some a"
    and "s' = s\<lparr>activities := (activities s)(activity_name \<mapsto>
                 a\<lparr>participants := remove1 email (participants a)\<rparr>)\<rparr>"
    using unregister_success_shape by blast
  then show ?thesis by auto
qed

theorem roster_mutation_frame_witness:
  "signup_for_activity demo_state ''Chess Club'' ''new@mergington.edu'' (with_cookie ''tok-1'') =
     (Inr [(''message'', ''Signed up new@mergington.edu for Chess Club'')], demo_after_signup)
   \<and> teacher_credentials demo_after_signup = teacher_credentials demo_state
   \<and> teacher_sessions demo_after_signup = teacher_sessions demo_state
   \<and> activities demo_after_signup ''Math Club'' = activities demo_state ''Math Club''
   \<and> unregister_from_activity demo_state ''Chess Club'' ''michael@mergington.edu''
       (with_cookie ''tok-1'') =
       (Inr [(''message'', ''Unregistered michael@mergington.edu from Chess Club'')],
        demo_after_unregister)
   \<and> teacher_credentials demo_after_unregister = teacher_credentials demo_state
   \<and> teacher_sessions demo_after_unregister = teacher_sessions demo_state
   \<and> activities demo_after_unregister ''Math Club'' = activities demo_state ''Math Club''"
proof -
  note up = roster_mutation_frame [OF disjI1 [OF demo_signup]]
  note down = roster_mutation_frame [OF disjI2 [OF demo_unregister]]
  from up have
    "teacher_credentials demo_after_signup = teacher_credentials demo_state"
    "teacher_sessions demo_after_signup = teacher_sessions demo_state"
    "\<forall>other. other \<noteq> ''Chess Club'' \<longrightarrow>
       activities demo_after_signup other = activities demo_state other"
    by simp_all
  moreover from down have
    "teacher_credentials demo_after_unregister = teacher_credentials demo_state"
    "teacher_sessions demo_after_unregister = teacher_sessions demo_state"
    "\<forall>other. other \<noteq> ''Chess Club'' \<longrightarrow>
       activities demo_after_unregister other = activities demo_state other"
    by simp_all
  ultimately show ?thesis
    using demo_signup demo_unregister by simp
qed

end
